theory Spec2Isabelle
  imports Main
begin

section \<open>Python string operations used by the sources\<close>

text \<open>
  A Python \<open>str\<close> is modelled as a \<open>string\<close>: one \<open>char\<close> per character of the
  Python string (code points below 256).  Line numbers, byte offsets and database ids
  are natural numbers.
\<close>

definition py_slice :: "'a list \<Rightarrow> nat \<Rightarrow> nat \<Rightarrow> 'a list" where
  \<comment> \<open>\<open>xs[a:b]\<close> for non-negative \<open>a\<close>, \<open>b\<close>: never raises, clips at the end.\<close>
  "py_slice xs a b = take (b - a) (drop a xs)"

fun py_join :: "string \<Rightarrow> string list \<Rightarrow> string" where
  "py_join sep [] = []"
| "py_join sep [x] = x"
| "py_join sep (x # y # ys) = x @ sep @ py_join sep (y # ys)"

fun split_scope :: "string \<Rightarrow> string \<Rightarrow> string list" where
  \<comment> \<open>\<open>s.split("::")\<close>, scanning from the left; the first argument is the segment read so far, reversed.\<close>
  "split_scope acc [] = [rev acc]"
| "split_scope acc [c] = [rev (c # acc)]"
| "split_scope acc (c # d # cs) =
     (if c = CHR '':'' \<and> d = CHR '':'' then rev acc # split_scope [] cs
      else split_scope (c # acc) (d # cs))"

fun find_scope :: "string \<Rightarrow> string \<Rightarrow> (string \<times> string) option" where
  \<comment> \<open>the text before and after the first \<open>::\<close>, if there is one\<close>
  "find_scope acc [] = None"
| "find_scope acc [c] = None"
| "find_scope acc (c # d # cs) =
     (if c = CHR '':'' \<and> d = CHR '':'' then Some (rev acc, cs)
      else find_scope (c # acc) (d # cs))"

definition has_scope :: "string \<Rightarrow> bool" where
  \<comment> \<open>\<open>"::" in s\<close>\<close>
  "has_scope s = (find_scope [] s \<noteq> None)"

definition rsplit_scope :: "string \<Rightarrow> string list" where
  \<comment> \<open>\<open>s.rsplit("::", 1)\<close>: split at the last \<open>::\<close>\<close>
  "rsplit_scope s =
     (case find_scope [] (rev s) of
        None \<Rightarrow> [s]
      | Some (a, b) \<Rightarrow> [rev b, rev a])"

definition is_space :: "char \<Rightarrow> bool" where
  \<comment> \<open>\<open>str.isspace\<close> on one character\<close>
  "is_space c =
     (let n = (of_char c :: nat)
      in (9 \<le> n \<and> n \<le> 13) \<or> (28 \<le> n \<and> n \<le> 32) \<or> n = 133 \<or> n = 160)"

definition strip_chars :: "(char \<Rightarrow> bool) \<Rightarrow> string \<Rightarrow> string" where
  "strip_chars P s = rev (dropWhile P (rev (dropWhile P s)))"

definition strip :: "string \<Rightarrow> string" where
  \<comment> \<open>\<open>s.strip()\<close>\<close>
  "strip s = strip_chars is_space s"

definition is_linebreak :: "char \<Rightarrow> bool" where
  \<comment> \<open>the single-character line boundaries of \<open>str.splitlines\<close> other than \<open>\r\<close>\<close>
  "is_linebreak c =
     (let n = (of_char c :: nat)
      in n = 10 \<or> n = 11 \<or> n = 12 \<or> n = 28 \<or> n = 29 \<or> n = 30 \<or> n = 133)"

fun splitlines_from :: "string \<Rightarrow> string \<Rightarrow> string list" where
  \<comment> \<open>the first argument is the line read so far, reversed\<close>
  "splitlines_from cur [] = (if cur = [] then [] else [rev cur])"
| "splitlines_from cur [c] =
     (if c = CHR 0x0D \<or> is_linebreak c then [rev cur] else [rev (c # cur)])"
| "splitlines_from cur (c # d # cs) =
     (if c = CHR 0x0D \<and> d = CHR 0x0A then rev cur # splitlines_from [] cs
      else if c = CHR 0x0D \<or> is_linebreak c then rev cur # splitlines_from [] (d # cs)
      else splitlines_from (c # cur) (d # cs))"

definition splitlines :: "string \<Rightarrow> string list" where
  "splitlines s = splitlines_from [] s"

definition startswith :: "string \<Rightarrow> string \<Rightarrow> bool" where
  "startswith s p = (take (length p) s = p)"

section \<open>Errors\<close>

text \<open>
  Exceptions are values.  \<open>ParseFailure\<close> stands for an exception raised while the
  tree-sitter library or the Python runtime builds and walks the tree,
  \<open>IndexError\<close> for a list index out of range, \<open>KeyError\<close> for a missing dictionary key, \<open>EncodeFailure\<close> for an exception of
  the embedding model, the next three for errors the database raises, and \<open>IOError\<close> for a file that cannot be opened.
\<close>

datatype error =
  ParseFailure | IndexError | KeyError | EncodeFailure
  | ForeignKeyViolation | DimensionMismatch | NegativeLimit | IOError

section \<open>The syntax tree handed over by tree-sitter\<close>

text \<open>
  A node of the tree-sitter tree: the field name under which it hangs in its parent
  (if any), its node type, its byte range in the UTF-8 encoding of the file, the rows
  of its start and end points, and its children in order.
\<close>

datatype node =
  Node (n_field: "string option") (n_type: string)
       (n_start_byte: nat) (n_end_byte: nat)
       (n_start_row: nat) (n_end_row: nat)
       (n_children: "node list")

definition child_by_field_name :: "node \<Rightarrow> string \<Rightarrow> node option" where
  "child_by_field_name n f = find (\<lambda>c. n_field c = Some f) (n_children n)"

definition get_node_text :: "node \<Rightarrow> string \<Rightarrow> string" where
  \<comment> \<open>\<open>content[node.start_byte:node.end_byte]\<close>: byte offsets index the characters of the string\<close>
  "get_node_text n content = py_slice content (n_start_byte n) (n_end_byte n)"

section \<open>parser.py: entities, relationships and chunks\<close>

datatype mvalue = MBool bool | MInt int | MStr string

type_synonym metadata = "(string \<times> mvalue) list"

record entity =
  entity_type :: string
  simple_name :: string
  qualified_name :: string
  signature :: "string option"
  start_line :: nat
  end_line :: nat
  start_byte :: nat
  end_byte :: nat
  is_public :: bool
  parent_id :: "nat option"
  complexity_score :: nat
  metadata :: metadata

record relationship =
  from_entity :: string
  to_entity :: string
  relationship_type :: string
  rel_context :: string
  line_number :: nat

record code_chunk =
  entity_name :: "string option"
  chunk_type :: string
  chunk_content :: string
  chunk_start_line :: nat
  chunk_end_line :: nat
  chunk_metadata :: metadata

text \<open>
  The fields of \<open>CppParser\<close> that the traversal mutates, together with the two result
  lists that \<open>_extract_entities\<close> appends to.
\<close>

record parser_state =
  current_namespace :: "string list"
  current_class :: "string option"
  entities :: "entity list"
  relationships :: "relationship list"

definition build_qualified_name :: "parser_state \<Rightarrow> string \<Rightarrow> string" where
  "build_qualified_name st simple =
     py_join ''::''
       (current_namespace st
        @ (case current_class st of
             None \<Rightarrow> []
           | Some c \<Rightarrow> if c = [] then [] else [last (split_scope [] c)])
        @ [simple])"

definition get_function_name_node :: "node \<Rightarrow> node option" where
  "get_function_name_node declarator0 =
     (let declarator =
            (if n_type declarator0 = ''function_declarator''
             then child_by_field_name declarator0 ''declarator''
             else Some declarator0)
      in case declarator of
           None \<Rightarrow> None
         | Some d \<Rightarrow>
             if n_type d = ''identifier'' then Some d
             else if n_type d = ''qualified_identifier'' \<or> n_type d = ''field_identifier''
               then find (\<lambda>c. n_type c = ''identifier'' \<or> n_type c = ''field_identifier'')
                      (rev (n_children d))
             else if n_type d = ''destructor_name'' then Some d
             else None)"

definition function_declarator_of :: "node \<Rightarrow> node option" where
  \<comment> \<open>\<open>node if node.type == "function_declarator" else node.child_by_field_name("declarator")\<close>\<close>
  "function_declarator_of n =
     (if n_type n = ''function_declarator'' then Some n
      else child_by_field_name n ''declarator'')"

definition extract_function_signature :: "node \<Rightarrow> string \<Rightarrow> string" where
  "extract_function_signature n content =
     (case function_declarator_of n of
        Some d \<Rightarrow> get_node_text d content
      | None \<Rightarrow> [])"

definition extract_base_classes :: "node \<Rightarrow> string \<Rightarrow> string list" where
  "extract_base_classes base_clause content =
     map (\<lambda>c. get_node_text c content)
       (filter (\<lambda>c. n_type c = ''type_identifier'' \<or> n_type c = ''qualified_identifier'')
          (n_children base_clause))"

definition has_template_params :: "string option \<Rightarrow> bool" where
  \<comment> \<open>the argument is the type of the node passed, \<open>None\<close> when there is no node\<close>
  "has_template_params t = (t = Some ''template_declaration'')"

definition is_public_node :: "node \<Rightarrow> bool" where
  \<comment> \<open>\<open>_is_public\<close>\<close>
  "is_public_node n = True"

definition is_control_flow :: "node \<Rightarrow> bool" where
  "is_control_flow n =
     (n_type n \<in> set [''if_statement'', ''while_statement'', ''for_statement'',
                      ''switch_statement'', ''case_statement'', ''catch_clause''])"

fun count_control_flow :: "node \<Rightarrow> nat \<Rightarrow> nat"
  and count_control_flow_list :: "node list \<Rightarrow> nat \<Rightarrow> nat" where
  "count_control_flow (Node f t sb eb sr er cs) complexity =
     count_control_flow_list cs
       (if is_control_flow (Node f t sb eb sr er cs) then complexity + 1 else complexity)"
| "count_control_flow_list [] complexity = complexity"
| "count_control_flow_list (c # cs) complexity =
     count_control_flow_list cs (count_control_flow c complexity)"

definition calculate_complexity :: "node \<Rightarrow> nat" where
  "calculate_complexity n = count_control_flow n 1"

definition class_entity :: "node \<Rightarrow> string \<Rightarrow> string \<Rightarrow> entity" where
  "class_entity n simple qualified =
     (let kind = (if n_type n = ''class_specifier'' then ''class'' else ''struct'')
      in \<lparr>entity_type = kind,
          simple_name = simple,
          qualified_name = qualified,
          signature = Some (kind @ '' '' @ simple),
          start_line = n_start_row n + 1,
          end_line = n_end_row n + 1,
          start_byte = n_start_byte n,
          end_byte = n_end_byte n,
          is_public = True,
          parent_id = None,
          complexity_score = 0,
          metadata = [(''has_templates'', MBool (has_template_params (Some (n_type n))))]\<rparr>)"

definition inherits_relationships :: "node \<Rightarrow> string \<Rightarrow> string \<Rightarrow> string \<Rightarrow> relationship list" where
  "inherits_relationships n content simple qualified =
     (case child_by_field_name n ''base_clause'' of
        None \<Rightarrow> []
      | Some base_clause \<Rightarrow>
          map (\<lambda>base.
                 \<lparr>from_entity = qualified,
                  to_entity = base,
                  relationship_type = ''inherits'',
                  rel_context = ''class '' @ simple @ '' : '' @ base,
                  line_number = n_start_row n + 1\<rparr>)
            (extract_base_classes base_clause content))"

definition function_entity :: "node \<Rightarrow> string option \<Rightarrow> string \<Rightarrow> string \<Rightarrow> string \<Rightarrow> entity" where
  \<comment> \<open>the second argument is the type of \<open>node.parent\<close>, if the node has a parent\<close>
  "function_entity n ptype content simple qualified =
     \<lparr>entity_type = ''function'',
      simple_name = simple,
      qualified_name = qualified,
      signature = Some (extract_function_signature n content),
      start_line = n_start_row n + 1,
      end_line = n_end_row n + 1,
      start_byte = n_start_byte n,
      end_byte = n_end_byte n,
      is_public = is_public_node n,
      parent_id = None,
      complexity_score = calculate_complexity n,
      metadata = [(''is_definition'', MBool (n_type n = ''function_definition'')),
                  (''has_templates'', MBool (has_template_params ptype))]\<rparr>"

definition enum_entity :: "node \<Rightarrow> string \<Rightarrow> string \<Rightarrow> entity" where
  "enum_entity n simple qualified =
     \<lparr>entity_type = ''enum'',
      simple_name = simple,
      qualified_name = qualified,
      signature = Some (''enum '' @ simple),
      start_line = n_start_row n + 1,
      end_line = n_end_row n + 1,
      start_byte = n_start_byte n,
      end_byte = n_end_byte n,
      is_public = True,
      parent_id = None,
      complexity_score = 0,
      metadata = []\<rparr>"

lemma size_n_children: "size_list size (n_children n) < size n"
  by (cases n) simp

lemma size_field_child:
  "child_by_field_name n f = Some b \<Longrightarrow> size_list size (n_children b) < size n"
proof -
  assume "child_by_field_name n f = Some b"
  then have "b \<in> set (n_children n)"
    by (auto simp: child_by_field_name_def find_Some_iff)
  then have "size b \<le> size_list size (n_children n)"
    by (rule size_list_estimation') simp
  with size_n_children [of b] size_n_children [of n] show ?thesis
    by linarith
qed

text \<open>
  \<open>_extract_entities\<close>.  The source's third parameter \<open>parent_name\<close> is only passed on
  and never read; in its place the model carries the type of \<open>node.parent\<close>, which the
  function branch reads for its metadata.  The loop over the children is
  \<open>extract_entities_list\<close>.
\<close>

function extract_entities :: "string \<Rightarrow> string option \<Rightarrow> node \<Rightarrow> parser_state \<Rightarrow> parser_state"
  and extract_entities_list :: "string \<Rightarrow> string option \<Rightarrow> node list \<Rightarrow> parser_state \<Rightarrow> parser_state"
where
  "extract_entities content ptype n st =
     (if n_type n = ''namespace_definition'' then
        (case child_by_field_name n ''name'' of
           None \<Rightarrow> st
         | Some namespace_node \<Rightarrow>
             (let st1 = st\<lparr>current_namespace :=
                            current_namespace st @ [get_node_text namespace_node content]\<rparr>;
                  st2 = (case child_by_field_name n ''body'' of
                           None \<Rightarrow> st1
                         | Some body \<Rightarrow>
                             extract_entities_list content (Some (n_type body)) (n_children body) st1)
              in st2\<lparr>current_namespace := butlast (current_namespace st2)\<rparr>))
      else if n_type n = ''class_specifier'' \<or> n_type n = ''struct_specifier'' then
        (case child_by_field_name n ''name'' of
           None \<Rightarrow> st
         | Some name_node \<Rightarrow>
             (let simple = get_node_text name_node content;
                  qualified = build_qualified_name st simple;
                  st1 = st\<lparr>relationships :=
                             relationships st @ inherits_relationships n content simple qualified,
                           entities := entities st @ [class_entity n simple qualified]\<rparr>;
                  old_class = current_class st1;
                  st2 = st1\<lparr>current_class := Some qualified\<rparr>;
                  st3 = (case child_by_field_name n ''body'' of
                           None \<Rightarrow> st2
                         | Some body \<Rightarrow>
                             extract_entities_list content (Some (n_type body)) (n_children body) st2)
              in st3\<lparr>current_class := old_class\<rparr>))
      else if n_type n = ''function_definition'' \<or> n_type n = ''function_declarator'' then
        (case function_declarator_of n of
           None \<Rightarrow> st
         | Some declarator \<Rightarrow>
             (case get_function_name_node declarator of
                None \<Rightarrow> st
              | Some name_node \<Rightarrow>
                  (let simple = get_node_text name_node content;
                       qualified = build_qualified_name st simple
                   in st\<lparr>entities :=
                            entities st @ [function_entity n ptype content simple qualified]\<rparr>)))
      else if n_type n = ''enum_specifier'' then
        (case child_by_field_name n ''name'' of
           None \<Rightarrow> st
         | Some name_node \<Rightarrow>
             (let simple = get_node_text name_node content;
                  qualified = build_qualified_name st simple
              in st\<lparr>entities := entities st @ [enum_entity n simple qualified]\<rparr>))
      else extract_entities_list content (Some (n_type n)) (n_children n) st)"
| "extract_entities_list content ptype [] st = st"
| "extract_entities_list content ptype (c # cs) st =
     extract_entities_list content ptype cs (extract_entities content ptype c st)"
  by pat_completeness auto
termination
  by (relation "measure (\<lambda>x. case x of
                    Inl (_, _, n, _) \<Rightarrow> size n
                  | Inr (_, _, ns, _) \<Rightarrow> size_list size ns)")
     (auto simp: size_n_children size_field_child)

declare extract_entities.simps [simp del]

definition strip_include :: "string \<Rightarrow> string" where
  \<comment> \<open>\<open>s.strip('"<>')\<close>\<close>
  "strip_include s = strip_chars (\<lambda>c. c = CHR 0x22 \<or> c = CHR ''<'' \<or> c = CHR ''>'') s"

definition node_relationships :: "string \<Rightarrow> node \<Rightarrow> relationship list" where
  \<comment> \<open>what \<open>_extract_relationships\<close> appends for the node itself\<close>
  "node_relationships content n =
     (if n_type n = ''preproc_include'' then
        (case find (\<lambda>c. n_type c = ''string_literal'' \<or> n_type c = ''system_lib_string'')
                (n_children n) of
           None \<Rightarrow> []
         | Some child \<Rightarrow>
             (let include_path = strip_include (get_node_text child content)
              in if include_path = [] then []
                 else [\<lparr>from_entity = [],
                        to_entity = include_path,
                        relationship_type = ''includes'',
                        rel_context = get_node_text n content,
                        line_number = n_start_row n + 1\<rparr>]))
      else if n_type n = ''call_expression'' then
        (case child_by_field_name n ''function'' of
           None \<Rightarrow> []
         | Some function_node \<Rightarrow>
             [\<lparr>from_entity = [],
               to_entity = get_node_text function_node content,
               relationship_type = ''calls'',
               rel_context = take 200 (get_node_text n content),
               line_number = n_start_row n + 1\<rparr>])
      else [])"

fun extract_relationships :: "string \<Rightarrow> node \<Rightarrow> relationship list \<Rightarrow> relationship list"
  and extract_relationships_list :: "string \<Rightarrow> node list \<Rightarrow> relationship list \<Rightarrow> relationship list"
where
  "extract_relationships content (Node f t sb eb sr er cs) rels =
     extract_relationships_list content cs
       (rels @ node_relationships content (Node f t sb eb sr er cs))"
| "extract_relationships_list content [] rels = rels"
| "extract_relationships_list content (c # cs) rels =
     extract_relationships_list content cs (extract_relationships content c rels)"

definition entity_chunk_type :: "entity \<Rightarrow> string" where
  "entity_chunk_type e =
     (if entity_type e = ''function'' \<and> map_of (metadata e) ''is_definition'' = Some (MBool True)
        then ''implementation''
      else if entity_type e = ''function'' then ''declaration''
      else if entity_type e = ''class'' \<or> entity_type e = ''struct'' then ''declaration''
      else ''mixed'')"

definition is_comment_line :: "string \<Rightarrow> bool" where
  "is_comment_line line =
     (startswith line ''//'' \<or> startswith line ''/*'' \<or> startswith line ''*'')"

fun scan_comments :: "string list \<Rightarrow> nat \<Rightarrow> nat \<Rightarrow> string list \<Rightarrow> error + string list" where
  \<comment> \<open>the backwards loop over \<open>lines[i]\<close>: index \<open>i\<close>, iterations left, comment lines so far\<close>
  "scan_comments lines i 0 comment_lines = Inr comment_lines"
| "scan_comments lines i (Suc k) comment_lines =
     (if length lines \<le> i then Inl IndexError
      else let line = strip (lines ! i)
           in if is_comment_line line
                then scan_comments lines (i - 1) k ((lines ! i) # comment_lines)
              else if line = [] then scan_comments lines (i - 1) k comment_lines
              else Inr comment_lines)"

definition entity_chunks :: "string list \<Rightarrow> entity \<Rightarrow> error + code_chunk list" where
  \<comment> \<open>the body of the loop of \<open>_create_chunks\<close> for one entity\<close>
  "entity_chunks lines e =
     (let entity_lines = py_slice lines (start_line e - 1) (end_line e);
          entity_code = py_join [CHR 0x0A] entity_lines;
          main =
            (if 100 < length entity_lines then
               \<lparr>entity_name = Some (qualified_name e),
                chunk_type = entity_chunk_type e,
                chunk_content = py_join [CHR 0x0A] (take 100 entity_lines),
                chunk_start_line = start_line e,
                chunk_end_line = start_line e + 100,
                chunk_metadata = [(''truncated'', MBool True),
                                  (''original_end'', MInt (int (end_line e)))]\<rparr>
             else
               \<lparr>entity_name = Some (qualified_name e),
                chunk_type = entity_chunk_type e,
                chunk_content = entity_code,
                chunk_start_line = start_line e,
                chunk_end_line = end_line e,
                chunk_metadata = []\<rparr>)
      in if 1 < start_line e then
           (case scan_comments lines (start_line e - 2) (min (start_line e - 1) 18) [] of
              Inl err \<Rightarrow> Inl err
            | Inr comment_lines \<Rightarrow>
                if 2 < length comment_lines then
                  Inr [main,
                       \<lparr>entity_name = Some (qualified_name e),
                        chunk_type = ''comment_block'',
                        chunk_content =
                          py_join [CHR 0x0A] comment_lines @ [CHR 0x0A, CHR 0x0A]
                          @ take 200 entity_code,
                        chunk_start_line = start_line e - length comment_lines,
                        chunk_end_line = start_line e,
                        chunk_metadata = [(''comment_for'', MStr (qualified_name e))]\<rparr>]
                else Inr [main])
         else Inr [main])"

fun create_chunks_loop :: "string list \<Rightarrow> entity list \<Rightarrow> code_chunk list \<Rightarrow> error + code_chunk list" where
  "create_chunks_loop lines [] chunks = Inr chunks"
| "create_chunks_loop lines (e # es) chunks =
     (case entity_chunks lines e of
        Inl err \<Rightarrow> Inl err
      | Inr cs \<Rightarrow> create_chunks_loop lines es (chunks @ cs))"

definition create_chunks :: "entity list \<Rightarrow> string \<Rightarrow> error + code_chunk list" where
  "create_chunks es content = create_chunks_loop (splitlines content) es []"

text \<open>
  \<open>parse_file\<close>.  The call \<open>self.parser.parse(bytes(content, "utf8"))\<close> is the
  parameter \<open>ts_parse\<close>: the tree for the content, or the exception raised.
\<close>

definition initial_state :: parser_state where
  "initial_state = \<lparr>current_namespace = [], current_class = None, entities = [], relationships = []\<rparr>"

definition parse_file ::
  "(string \<Rightarrow> error + node) \<Rightarrow> string
   \<Rightarrow> error + (entity list \<times> relationship list \<times> code_chunk list)" where
  "parse_file ts_parse content =
     (case ts_parse content of
        Inl err \<Rightarrow> Inl err
      | Inr root \<Rightarrow>
          (let st = extract_entities content None root initial_state
           in case create_chunks (entities st) content of
                Inl err \<Rightarrow> Inl err
              | Inr chunks \<Rightarrow>
                  Inr (entities st,
                       extract_relationships content root (relationships st),
                       chunks)))"

definition parse_cpp_file ::
  "(string \<Rightarrow> error + node) \<Rightarrow> string
   \<Rightarrow> error + (entity list \<times> relationship list \<times> code_chunk list)" where
  "parse_cpp_file ts_parse content = parse_file ts_parse content"

section \<open>server.py: the database schema\<close>

text \<open>
  The four tables of \<open>initialize_database\<close> as lists of rows in insertion order, and the
  four \<open>SERIAL\<close> sequences.  An embedding is the list of its components; only its width
  matters here (\<open>vector(384)\<close>).
\<close>

type_synonym vector = "int list"

record file_row =
  f_id :: nat
  f_path :: string
  f_content_hash :: string
  f_last_modified :: nat
  f_last_indexed :: "nat option"
  f_file_type :: string
  f_loc :: nat
  f_status :: string

record entity_row =
  e_id :: nat
  e_file_id :: nat
  e_type :: string
  e_qualified_name :: string
  e_simple_name :: string
  e_signature :: "string option"
  e_start_line :: nat
  e_end_line :: nat
  e_complexity_score :: nat
  e_is_public :: bool
  e_parent_id :: "nat option"
  e_metadata :: metadata

record relationship_row =
  r_id :: nat
  r_from_entity_id :: nat
  r_to_entity_id :: nat
  r_relationship_type :: string
  r_context :: string
  r_line_number :: nat
  r_is_direct :: bool

record chunk_row =
  c_id :: nat
  c_entity_id :: "nat option"
  c_file_id :: nat
  c_chunk_type :: string
  c_content :: string
  c_start_line :: nat
  c_end_line :: nat
  c_embedding :: vector
  c_metadata :: metadata

record store =
  files :: "file_row list"
  entity_rows :: "entity_row list"
  relationship_rows :: "relationship_row list"
  chunk_rows :: "chunk_row list"
  next_file_id :: nat
  next_entity_id :: nat
  next_relationship_id :: nat
  next_chunk_id :: nat


definition embedding_width :: nat where
  "embedding_width = 384"

definition file_exists :: "store \<Rightarrow> nat \<Rightarrow> bool" where
  "file_exists st fid = (fid \<in> set (map f_id (files st)))"

definition entity_exists :: "store \<Rightarrow> nat \<Rightarrow> bool" where
  "entity_exists st eid = (eid \<in> set (map e_id (entity_rows st)))"

text \<open>
  A statement returns its value or the error the database raises, with the store after
  it.  A transaction that fails puts the tables back; a sequence keeps the values it
  has handed out.
\<close>

definition rollback :: "store \<Rightarrow> store \<Rightarrow> store" where
  \<comment> \<open>the store at the start of the transaction and the store at the failure\<close>
  "rollback st0 st =
     st0\<lparr>next_file_id := next_file_id st,
         next_entity_id := next_entity_id st,
         next_relationship_id := next_relationship_id st,
         next_chunk_id := next_chunk_id st\<rparr>"

fun cascade_closure :: "nat \<Rightarrow> entity_row list \<Rightarrow> nat list \<Rightarrow> nat list" where
  \<comment> \<open>\<open>ON DELETE CASCADE\<close> along \<open>parent_id\<close>: one round per unit of the first argument\<close>
  "cascade_closure 0 rows doomed = doomed"
| "cascade_closure (Suc k) rows doomed =
     cascade_closure k rows
       (doomed @ map e_id
          (filter (\<lambda>e. e_id e \<notin> set doomed
                       \<and> (case e_parent_id e of None \<Rightarrow> False | Some p \<Rightarrow> p \<in> set doomed))
             rows))"

definition delete_entities :: "nat list \<Rightarrow> store \<Rightarrow> store" where
  \<comment> \<open>delete the entities with these ids, and by cascade their descendants, edges and chunks\<close>
  "delete_entities ids st =
     (let doomed = cascade_closure (length (entity_rows st)) (entity_rows st) ids
      in st\<lparr>entity_rows := filter (\<lambda>e. e_id e \<notin> set doomed) (entity_rows st),
            relationship_rows :=
              filter (\<lambda>r. r_from_entity_id r \<notin> set doomed \<and> r_to_entity_id r \<notin> set doomed)
                (relationship_rows st),
            chunk_rows :=
              filter (\<lambda>c. case c_entity_id c of None \<Rightarrow> True | Some i \<Rightarrow> i \<notin> set doomed)
                (chunk_rows st)\<rparr>)"

definition delete_entities_of_file :: "nat \<Rightarrow> store \<Rightarrow> store" where
  \<comment> \<open>\<open>DELETE FROM entities WHERE file_id = $1\<close>\<close>
  "delete_entities_of_file fid st =
     delete_entities (map e_id (filter (\<lambda>e. e_file_id e = fid) (entity_rows st))) st"

definition insert_entity :: "nat \<Rightarrow> entity \<Rightarrow> store \<Rightarrow> (error + nat) \<times> store" where
  \<comment> \<open>\<open>_insert_entity\<close>: \<open>INSERT INTO entities ... RETURNING id\<close>; \<open>parent_id\<close> is not among the columns\<close>
  "insert_entity fid e st =
     (let eid = next_entity_id st;
          st1 = st\<lparr>next_entity_id := eid + 1\<rparr>
      in if \<not> file_exists st fid then (Inl ForeignKeyViolation, st1)
         else (Inr eid,
               st1\<lparr>entity_rows := entity_rows st @
                  [\<lparr>e_id = eid, e_file_id = fid, e_type = entity_type e,
                    e_qualified_name = qualified_name e, e_simple_name = simple_name e,
                    e_signature = signature e, e_start_line = start_line e,
                    e_end_line = end_line e, e_complexity_score = complexity_score e,
                    e_is_public = is_public e, e_parent_id = None,
                    e_metadata = metadata e\<rparr>]\<rparr>))"

definition update_parent :: "nat \<Rightarrow> nat \<Rightarrow> store \<Rightarrow> (error + unit) \<times> store" where
  \<comment> \<open>\<open>UPDATE entities SET parent_id = $1 WHERE id = $2\<close>\<close>
  "update_parent parent child st =
     (if entity_exists st child \<and> \<not> entity_exists st parent then (Inl ForeignKeyViolation, st)
      else (Inr (),
            st\<lparr>entity_rows :=
                 map (\<lambda>e. if e_id e = child then e\<lparr>e_parent_id := Some parent\<rparr> else e)
                   (entity_rows st)\<rparr>))"

definition insert_relationship_row ::
  "nat \<Rightarrow> nat \<Rightarrow> relationship \<Rightarrow> store \<Rightarrow> (error + unit) \<times> store" where
  \<comment> \<open>\<open>INSERT INTO relationships ... ON CONFLICT DO NOTHING\<close>: the table has no unique constraint but its key\<close>
  "insert_relationship_row from_id to_id rel st =
     (let rid = next_relationship_id st;
          st1 = st\<lparr>next_relationship_id := rid + 1\<rparr>
      in if \<not> entity_exists st from_id \<or> \<not> entity_exists st to_id
           then (Inl ForeignKeyViolation, st1)
         else (Inr (),
               st1\<lparr>relationship_rows := relationship_rows st @
                  [\<lparr>r_id = rid, r_from_entity_id = from_id, r_to_entity_id = to_id,
                    r_relationship_type = relationship_type rel,
                    r_context = rel_context rel, r_line_number = line_number rel,
                    r_is_direct = True\<rparr>]\<rparr>))"

definition insert_chunk_row ::
  "nat option \<Rightarrow> nat \<Rightarrow> string \<Rightarrow> string \<Rightarrow> nat \<Rightarrow> nat \<Rightarrow> vector \<Rightarrow> metadata
   \<Rightarrow> store \<Rightarrow> (error + unit) \<times> store" where
  \<comment> \<open>\<open>INSERT INTO code_chunks\<close>\<close>
  "insert_chunk_row eid fid ctype text first_line last_line emb meta st =
     (let cid = next_chunk_id st;
          st1 = st\<lparr>next_chunk_id := cid + 1\<rparr>
      in if length emb \<noteq> embedding_width then (Inl DimensionMismatch, st)
         else if \<not> file_exists st fid
                 \<or> (case eid of None \<Rightarrow> False | Some i \<Rightarrow> \<not> entity_exists st i)
           then (Inl ForeignKeyViolation, st1)
         else (Inr (),
               st1\<lparr>chunk_rows := chunk_rows st @
                  [\<lparr>c_id = cid, c_entity_id = eid, c_file_id = fid, c_chunk_type = ctype,
                    c_content = text, c_start_line = first_line, c_end_line = last_line,
                    c_embedding = emb, c_metadata = meta\<rparr>]\<rparr>))"

definition mark_indexed :: "nat \<Rightarrow> nat \<Rightarrow> store \<Rightarrow> store" where
  \<comment> \<open>\<open>UPDATE files SET status = 'indexed', last_indexed = $1 WHERE id = $2\<close>\<close>
  "mark_indexed now fid st =
     st\<lparr>files :=
          map (\<lambda>f. if f_id f = fid then f\<lparr>f_status := ''indexed'', f_last_indexed := Some now\<rparr>
                    else f)
            (files st)\<rparr>"

section \<open>indexer.py: indexing one file\<close>

text \<open>
  A Python \<open>dict\<close> from names to ids is a map.  \<open>entity_map\<close> is local to one call of
  \<open>index_file\<close>; \<open>entity_cache\<close> is the field of \<open>CodeIndexer\<close>, which lives for one
  run of \<open>batch_index_files\<close> and is not undone when a transaction fails.
\<close>

type_synonym name_map = "string \<rightharpoonup> nat"

fun insert_entities ::
  "nat \<Rightarrow> entity list \<Rightarrow> name_map \<Rightarrow> name_map \<Rightarrow> store
   \<Rightarrow> error option \<times> name_map \<times> name_map \<times> store" where
  \<comment> \<open>the loop \<open>for entity in entities\<close> that fills \<open>entity_map\<close> and \<open>entity_cache\<close>\<close>
  "insert_entities fid [] entity_map cache st = (None, entity_map, cache, st)"
| "insert_entities fid (e # es) entity_map cache st =
     (case insert_entity fid e st of
        (Inl err, st1) \<Rightarrow> (Some err, entity_map, cache, st1)
      | (Inr eid, st1) \<Rightarrow>
          insert_entities fid es
            (entity_map(qualified_name e \<mapsto> eid)) (cache(qualified_name e \<mapsto> eid)) st1)"

fun resolve_parents :: "entity list \<Rightarrow> name_map \<Rightarrow> store \<Rightarrow> error option \<times> store" where
  \<comment> \<open>the loop under \<open># Resolve parent relationships\<close>\<close>
  "resolve_parents [] entity_map st = (None, st)"
| "resolve_parents (e # es) entity_map st =
     (if has_scope (qualified_name e) then
        (case entity_map (hd (rsplit_scope (qualified_name e))) of
           None \<Rightarrow> resolve_parents es entity_map st
         | Some parent \<Rightarrow>
             (case entity_map (qualified_name e) of
                None \<Rightarrow> (Some KeyError, st)
              | Some child \<Rightarrow>
                  (case update_parent parent child st of
                     (Inl err, st1) \<Rightarrow> (Some err, st1)
                   | (Inr _, st1) \<Rightarrow> resolve_parents es entity_map st1)))
      else resolve_parents es entity_map st)"

definition resolve_from :: "relationship \<Rightarrow> name_map \<Rightarrow> name_map \<Rightarrow> nat option" where
  "resolve_from rel entity_map cache =
     (case entity_map (from_entity rel) of
        Some i \<Rightarrow> Some i
      | None \<Rightarrow> cache (from_entity rel))"

definition select_by_simple_name :: "store \<Rightarrow> string \<Rightarrow> nat option" where
  \<comment> \<open>\<open>SELECT id FROM entities WHERE simple_name = $1 LIMIT 1\<close>: the first such row\<close>
  "select_by_simple_name st name =
     map_option e_id (find (\<lambda>e. e_simple_name e = name) (entity_rows st))"

definition resolve_to :: "relationship \<Rightarrow> name_map \<Rightarrow> name_map \<Rightarrow> store \<Rightarrow> nat option" where
  "resolve_to rel entity_map cache st =
     (case entity_map (to_entity rel) of
        Some i \<Rightarrow> Some i
      | None \<Rightarrow>
          (case cache (to_entity rel) of
             Some i \<Rightarrow> Some i
           | None \<Rightarrow> select_by_simple_name st (last (split_scope [] (to_entity rel)))))"

definition truthy :: "nat option \<Rightarrow> bool" where
  \<comment> \<open>Python's truth value of an id that may be \<open>None\<close>\<close>
  "truthy i = (case i of None \<Rightarrow> False | Some n \<Rightarrow> n \<noteq> 0)"

definition insert_relationship ::
  "relationship \<Rightarrow> name_map \<Rightarrow> name_map \<Rightarrow> store \<Rightarrow> error option \<times> store" where
  "insert_relationship rel entity_map cache st =
     (let from_id = resolve_from rel entity_map cache
      in if relationship_type rel = ''includes'' then (None, st)
         else
           (let to_id = resolve_to rel entity_map cache st
            in if truthy from_id \<and> truthy to_id then
                 (case insert_relationship_row (the from_id) (the to_id) rel st of
                    (Inl err, st1) \<Rightarrow> (Some err, st1)
                  | (Inr _, st1) \<Rightarrow> (None, st1))
               else (None, st)))"

fun insert_relationships ::
  "relationship list \<Rightarrow> name_map \<Rightarrow> name_map \<Rightarrow> store \<Rightarrow> error option \<times> store" where
  "insert_relationships [] entity_map cache st = (None, st)"
| "insert_relationships (rel # rels) entity_map cache st =
     (case insert_relationship rel entity_map cache st of
        (Some err, st1) \<Rightarrow> (Some err, st1)
      | (None, st1) \<Rightarrow> insert_relationships rels entity_map cache st1)"

definition insert_chunk ::
  "(string \<Rightarrow> vector option) \<Rightarrow> code_chunk \<Rightarrow> name_map \<Rightarrow> nat \<Rightarrow> store
   \<Rightarrow> error option \<times> store" where
  \<comment> \<open>the first argument is \<open>embedding_model.encode\<close>: \<open>None\<close> when it raises\<close>
  "insert_chunk encode chunk entity_map fid st =
     (case encode (chunk_content chunk) of
        None \<Rightarrow> (Some EncodeFailure, st)
      | Some emb \<Rightarrow>
          (let eid = (case entity_name chunk of
                        None \<Rightarrow> None
                      | Some name \<Rightarrow> if name = [] then None else entity_map name)
           in case insert_chunk_row eid fid (chunk_type chunk) (chunk_content chunk)
                     (chunk_start_line chunk) (chunk_end_line chunk) emb (chunk_metadata chunk) st of
                (Inl err, st1) \<Rightarrow> (Some err, st1)
              | (Inr _, st1) \<Rightarrow> (None, st1)))"

fun insert_chunks ::
  "(string \<Rightarrow> vector option) \<Rightarrow> code_chunk list \<Rightarrow> name_map \<Rightarrow> nat \<Rightarrow> store
   \<Rightarrow> error option \<times> store" where
  "insert_chunks encode [] entity_map fid st = (None, st)"
| "insert_chunks encode (chunk # chunks) entity_map fid st =
     (case insert_chunk encode chunk entity_map fid st of
        (Some err, st1) \<Rightarrow> (Some err, st1)
      | (None, st1) \<Rightarrow> insert_chunks encode chunks entity_map fid st1)"

definition chunk_size :: nat where
  "chunk_size = 100"

definition overlap :: nat where
  "overlap = 20"

text \<open>
  \<open>_simple_file_indexing\<close>: the loop \<open>for i in range(0, len(lines), chunk_size - overlap)\<close>.
  The connection is used without a transaction, so every insert stays.
\<close>

function simple_file_indexing_loop ::
  "(string \<Rightarrow> vector option) \<Rightarrow> nat \<Rightarrow> string list \<Rightarrow> nat \<Rightarrow> store \<Rightarrow> error option \<times> store" where
  "simple_file_indexing_loop encode fid lines i st =
     (if length lines \<le> i then (None, st)
      else
        (let chunk_lines = py_slice lines i (i + chunk_size);
             chunk_text = py_join [CHR 0x0A] chunk_lines
         in if length (strip chunk_text) < 50
              then simple_file_indexing_loop encode fid lines (i + (chunk_size - overlap)) st
            else
              (case encode chunk_text of
                 None \<Rightarrow> (Some EncodeFailure, st)
               | Some emb \<Rightarrow>
                   (case insert_chunk_row None fid ''mixed'' chunk_text (i + 1)
                           (i + length chunk_lines) emb [(''fallback'', MBool True)] st of
                      (Inl err, st1) \<Rightarrow> (Some err, st1)
                    | (Inr _, st1) \<Rightarrow>
                        simple_file_indexing_loop encode fid lines
                          (i + (chunk_size - overlap)) st1))))"
  by pat_completeness auto
termination
  by (relation "measure (\<lambda>(encode, fid, lines, i, st). length lines - i)")
     (auto simp: chunk_size_def overlap_def)

declare simple_file_indexing_loop.simps [simp del]

definition simple_file_indexing ::
  "(string \<Rightarrow> vector option) \<Rightarrow> nat \<Rightarrow> string \<Rightarrow> store \<Rightarrow> error option \<times> store" where
  "simple_file_indexing encode fid content st =
     simple_file_indexing_loop encode fid (splitlines content) 0 st"

text \<open>
  The body of the transaction of \<open>index_file\<close>, and \<open>index_file\<close> itself.  The result is
  the exception that leaves \<open>index_file\<close> (if any), the cache and the store.
\<close>

definition index_transaction ::
  "(string \<Rightarrow> vector option) \<Rightarrow> nat \<Rightarrow> nat \<Rightarrow> entity list \<Rightarrow> relationship list \<Rightarrow> code_chunk list
   \<Rightarrow> name_map \<Rightarrow> store \<Rightarrow> error option \<times> name_map \<times> store" where
  "index_transaction encode now fid ents rels chunks cache st =
     (let st1 = delete_entities_of_file fid st
      in case insert_entities fid ents Map.empty cache st1 of
           (Some err, entity_map, cache1, st2) \<Rightarrow> (Some err, cache1, st2)
         | (None, entity_map, cache1, st2) \<Rightarrow>
             (case resolve_parents ents entity_map st2 of
                (Some err, st3) \<Rightarrow> (Some err, cache1, st3)
              | (None, st3) \<Rightarrow>
                  (case insert_relationships rels entity_map cache1 st3 of
                     (Some err, st4) \<Rightarrow> (Some err, cache1, st4)
                   | (None, st4) \<Rightarrow>
                       (case insert_chunks encode chunks entity_map fid st4 of
                          (Some err, st5) \<Rightarrow> (Some err, cache1, st5)
                        | (None, st5) \<Rightarrow> (None, cache1, mark_indexed now fid st5)))))"

definition index_file ::
  "(string \<Rightarrow> error + node) \<Rightarrow> (string \<Rightarrow> vector option) \<Rightarrow> nat \<Rightarrow> nat \<Rightarrow> string
   \<Rightarrow> name_map \<Rightarrow> store \<Rightarrow> error option \<times> name_map \<times> store" where
  "index_file ts_parse encode now fid content cache st =
     (case parse_cpp_file ts_parse content of
        Inl err \<Rightarrow>
          (case simple_file_indexing encode fid content st of
             (res, st1) \<Rightarrow> (res, cache, st1))
      | Inr (ents, rels, chunks) \<Rightarrow>
          (case index_transaction encode now fid ents rels chunks cache st of
             (Some err, cache1, st1) \<Rightarrow> (Some err, cache1, rollback st st1)
           | (None, cache1, st1) \<Rightarrow> (None, cache1, st1)))"

section \<open>indexer.py and server.py: batches and change detection\<close>

text \<open>
  What the code reads from outside: a file on disk has the bytes that \<open>open(path, 'rb')\<close>
  yields, the text that \<open>open(path, 'r', encoding='utf-8', errors='ignore').read()\<close>
  yields (\<open>None\<close> when that raises) and a modification time.  The libraries are
  parameters: tree-sitter, the embedding model, SHA-256 as hex digest, UTF-8 encoding,
  \<open>Path.suffix\<close> and the clock.
\<close>

record disk_file =
  df_bytes :: string
  df_text :: "string option"
  df_mtime :: nat

type_synonym disk = "string \<rightharpoonup> disk_file"

record env =
  env_ts_parse :: "string \<Rightarrow> error + node"
  env_encode :: "string \<Rightarrow> vector option"
  env_sha256 :: "string \<Rightarrow> string"
  env_utf8 :: "string \<Rightarrow> string"
  env_suffix :: "string \<Rightarrow> string"
  env_now :: nat

definition upsert_file ::
  "string \<Rightarrow> string \<Rightarrow> nat \<Rightarrow> string \<Rightarrow> nat \<Rightarrow> store \<Rightarrow> nat \<times> store" where
  \<comment> \<open>\<open>INSERT INTO files ... ON CONFLICT (path) DO UPDATE SET ... RETURNING id\<close>\<close>
  "upsert_file path content_hash modified file_type loc st =
     (let fid = next_file_id st;
          st1 = st\<lparr>next_file_id := fid + 1\<rparr>
      in case find (\<lambda>f. f_path f = path) (files st) of
           Some old \<Rightarrow>
             (f_id old,
              st1\<lparr>files :=
                   map (\<lambda>f. if f_path f = path
                             then f\<lparr>f_content_hash := content_hash, f_last_modified := modified,
                                    f_loc := loc, f_status := ''indexing''\<rparr>
                             else f)
                     (files st)\<rparr>)
         | None \<Rightarrow>
             (fid,
              st1\<lparr>files := files st @
                   [\<lparr>f_id = fid, f_path = path, f_content_hash = content_hash,
                     f_last_modified = modified, f_last_indexed = None,
                     f_file_type = file_type, f_loc = loc, f_status = ''indexing''\<rparr>]\<rparr>))"

text \<open>
  One batch of \<open>batch_index_files\<close>: first every readable file of the batch gets its
  row and its task, then the tasks run.  \<open>asyncio.gather\<close> runs the tasks interleaved;
  the model runs them one after the other, in order.
\<close>

fun prepare_tasks ::
  "env \<Rightarrow> disk \<Rightarrow> string list \<Rightarrow> store \<Rightarrow> (string \<times> nat \<times> string) list \<times> store" where
  "prepare_tasks ev dsk [] st = ([], st)"
| "prepare_tasks ev dsk (path # paths) st =
     (case (case dsk path of None \<Rightarrow> None | Some f \<Rightarrow> df_text f) of
        None \<Rightarrow> prepare_tasks ev dsk paths st
      | Some content \<Rightarrow>
          (let content_hash = env_sha256 ev (env_utf8 ev content);
               modified = (case dsk path of None \<Rightarrow> 0 | Some f \<Rightarrow> df_mtime f);
               (fid, st1) = upsert_file path content_hash modified (env_suffix ev path)
                              (length (splitlines content)) st;
               (tasks, st2) = prepare_tasks ev dsk paths st1
           in ((path, fid, content) # tasks, st2)))"

fun run_tasks ::
  "env \<Rightarrow> (string \<times> nat \<times> string) list \<Rightarrow> name_map \<Rightarrow> store
   \<Rightarrow> (string \<times> error option) list \<times> name_map \<times> store" where
  "run_tasks ev [] cache st = ([], cache, st)"
| "run_tasks ev ((path, fid, content) # tasks) cache st =
     (case index_file (env_ts_parse ev) (env_encode ev) (env_now ev) fid content cache st of
        (res, cache1, st1) \<Rightarrow>
          (case run_tasks ev tasks cache1 st1 of
             (results, cache2, st2) \<Rightarrow> ((path, res) # results, cache2, st2)))"

definition batch_size :: nat where
  "batch_size = 10"

function batch_loop ::
  "env \<Rightarrow> disk \<Rightarrow> string list \<Rightarrow> name_map \<Rightarrow> store
   \<Rightarrow> (string \<times> error option) list \<times> name_map \<times> store" where
  "batch_loop ev dsk file_paths cache st =
     (if file_paths = [] then ([], cache, st)
      else
        (case prepare_tasks ev dsk (take batch_size file_paths) st of
           (tasks, st1) \<Rightarrow>
             (case run_tasks ev tasks cache st1 of
                (results, cache1, st2) \<Rightarrow>
                  (case batch_loop ev dsk (drop batch_size file_paths) cache1 st2 of
                     (later, cache2, st3) \<Rightarrow> (results @ later, cache2, st3)))))"
  by pat_completeness auto
termination
  by (relation "measure (\<lambda>(ev, dsk, file_paths, cache, st). length file_paths)")
     (auto simp: batch_size_def)

declare batch_loop.simps [simp del]

definition batch_index_files ::
  "env \<Rightarrow> disk \<Rightarrow> string list \<Rightarrow> store \<Rightarrow> (string \<times> error option) list \<times> store" where
  \<comment> \<open>the result lists the files \<open>index_file\<close> ran on, each with the exception it ended in\<close>
  "batch_index_files ev dsk file_paths st =
     (case batch_loop ev dsk file_paths Map.empty st of
        (results, cache, st1) \<Rightarrow> (results, st1))"

definition stored_hash :: "store \<Rightarrow> string \<Rightarrow> string option" where
  \<comment> \<open>\<open>SELECT id, content_hash FROM files WHERE path = $1\<close>\<close>
  "stored_hash st path = map_option f_content_hash (find (\<lambda>f. f_path f = path) (files st))"

definition calculate_file_hash :: "env \<Rightarrow> disk \<Rightarrow> string \<Rightarrow> error + string" where
  "calculate_file_hash ev dsk path =
     (case dsk path of
        None \<Rightarrow> Inl IOError
      | Some f \<Rightarrow> Inr (env_sha256 ev (df_bytes f)))"

fun changed_files_loop ::
  "env \<Rightarrow> disk \<Rightarrow> store \<Rightarrow> string list \<Rightarrow> string list \<Rightarrow> error + string list" where
  \<comment> \<open>the scan of \<open>check_for_changes\<close> over the files found, appending to \<open>changed_files\<close>\<close>
  "changed_files_loop ev dsk st [] changed = Inr changed"
| "changed_files_loop ev dsk st (path # paths) changed =
     (case calculate_file_hash ev dsk path of
        Inl err \<Rightarrow> Inl err
      | Inr content_hash \<Rightarrow>
          (case stored_hash st path of
             None \<Rightarrow> changed_files_loop ev dsk st paths (changed @ [path])
           | Some h \<Rightarrow>
               if h \<noteq> content_hash
                 then changed_files_loop ev dsk st paths (changed @ [path])
               else changed_files_loop ev dsk st paths changed))"

definition check_for_changes ::
  "env \<Rightarrow> disk \<Rightarrow> string list \<Rightarrow> store
   \<Rightarrow> (error + (string \<times> error option) list) \<times> store" where
  \<comment> \<open>the third argument lists the C++ files found under the monitored directories\<close>
  "check_for_changes ev dsk found st =
     (case changed_files_loop ev dsk st found [] of
        Inl err \<Rightarrow> (Inl err, st)
      | Inr changed \<Rightarrow>
          if changed \<noteq> [] then
            (case batch_index_files ev dsk changed st of
               (results, st1) \<Rightarrow> (Inr results, st1))
          else (Inr [], st))"

section \<open>Reading the parser's result\<close>

definition parse_as :: "node \<Rightarrow> string \<Rightarrow> error + node" where
  \<comment> \<open>a tree-sitter that answers with the given tree\<close>
  "parse_as root content = Inr root"

definition parsed_entities :: "(string \<Rightarrow> error + node) \<Rightarrow> string \<Rightarrow> entity list" where
  "parsed_entities ts_parse content =
     (case parse_cpp_file ts_parse content of
        Inl err \<Rightarrow> []
      | Inr (ents, rels, chunks) \<Rightarrow> ents)"

fun subnodes :: "node \<Rightarrow> node list"
  and subnodes_list :: "node list \<Rightarrow> node list" where
  \<comment> \<open>a node and everything below it, in document order\<close>
  "subnodes (Node f t sb eb sr er cs) = Node f t sb eb sr er cs # subnodes_list cs"
| "subnodes_list [] = []"
| "subnodes_list (c # cs) = subnodes c @ subnodes_list cs"

definition control_flow_nodes :: "node \<Rightarrow> nat" where
  \<comment> \<open>the number of control-flow nodes anywhere in the subtree of a node\<close>
  "control_flow_nodes n = length (filter is_control_flow (subnodes n))"

text \<open>
  How the complexity score of an entity relates to the tree it was built from: a
  function entity is built from a node of the tree and scores one more than the
  control-flow nodes below that node; a class, struct or enum entity scores 0.
\<close>

definition complexity_as_built :: "node \<Rightarrow> entity \<Rightarrow> bool" where
  "complexity_as_built root e =
     ((entity_type e = ''function''
        \<and> (\<exists>n \<in> set (subnodes root). \<exists>pt c s q.
              e = function_entity n pt c s q
              \<and> complexity_score e = 1 + control_flow_nodes n)
        \<and> 1 \<le> complexity_score e)
      \<or> (entity_type e \<in> {''class'', ''struct'', ''enum''} \<and> complexity_score e = 0))"

text \<open>
  The qualified names as the specification words them: namespaces, classes and structs
  all push their name on one scope stack for their body and pop it on exit, and an
  entity is named by the stack joined with \<open>::\<close> and its own name.  The traversal visits
  the same nodes as \<open>extract_entities\<close>.
\<close>

lemma size_field_grandchild:
  "child_by_field_name n f = Some b \<Longrightarrow> c \<in> set (n_children b) \<Longrightarrow> size c < size n"
proof -
  assume b: "child_by_field_name n f = Some b" and c: "c \<in> set (n_children b)"
  from c have "size c \<le> size_list size (n_children b)"
    by (rule size_list_estimation') simp
  with size_field_child [OF b] show ?thesis by linarith
qed

lemma size_child: "c \<in> set (n_children n) \<Longrightarrow> size c < size n"
proof -
  assume "c \<in> set (n_children n)"
  then have "size c \<le> size_list size (n_children n)"
    by (rule size_list_estimation') simp
  with size_n_children [of n] show ?thesis by linarith
qed

function lexical_names :: "string \<Rightarrow> string list \<Rightarrow> node \<Rightarrow> string list" where
  "lexical_names content scope n =
     (if n_type n = ''namespace_definition'' then
        (case child_by_field_name n ''name'' of
           None \<Rightarrow> []
         | Some name_node \<Rightarrow>
             (case child_by_field_name n ''body'' of
                None \<Rightarrow> []
              | Some body \<Rightarrow>
                  concat (map (lexical_names content (scope @ [get_node_text name_node content]))
                            (n_children body))))
      else if n_type n = ''class_specifier'' \<or> n_type n = ''struct_specifier'' then
        (case child_by_field_name n ''name'' of
           None \<Rightarrow> []
         | Some name_node \<Rightarrow>
             py_join ''::'' (scope @ [get_node_text name_node content])
             # (case child_by_field_name n ''body'' of
                  None \<Rightarrow> []
                | Some body \<Rightarrow>
                    concat (map (lexical_names content (scope @ [get_node_text name_node content]))
                              (n_children body))))
      else if n_type n = ''function_definition'' \<or> n_type n = ''function_declarator'' then
        (case function_declarator_of n of
           None \<Rightarrow> []
         | Some declarator \<Rightarrow>
             (case get_function_name_node declarator of
                None \<Rightarrow> []
              | Some name_node \<Rightarrow> [py_join ''::'' (scope @ [get_node_text name_node content])]))
      else if n_type n = ''enum_specifier'' then
        (case child_by_field_name n ''name'' of
           None \<Rightarrow> []
         | Some name_node \<Rightarrow> [py_join ''::'' (scope @ [get_node_text name_node content])])
      else concat (map (lexical_names content scope) (n_children n)))"
  by pat_completeness auto
termination
  by (relation "measure (\<lambda>(content, scope, n). size n)")
     (auto simp: size_field_grandchild size_child)

declare lexical_names.simps [simp del]













section \<open>Example inputs\<close>

text \<open>
  The source text \<open>namespace A { class B { void c() {} } }\<close> and its tree: the method's
  name inside a class body is a leaf of type \<open>field_identifier\<close>, as the C++ grammar
  of tree-sitter names it.  Everything is on row 0.
\<close>

definition nested_source :: string where
  "nested_source = ''namespace A { class B { void c() {} } }''"

definition method_node :: "string \<Rightarrow> node" where
  \<comment> \<open>the node of \<open>void c() {}\<close>; the argument is the type of the name node\<close>
  "method_node name_type =
     Node None ''function_definition'' 24 35 0 0
      [Node (Some ''type'') ''primitive_type'' 24 28 0 0 [],
       Node (Some ''declarator'') ''function_declarator'' 29 32 0 0
        [Node (Some ''declarator'') name_type 29 30 0 0 [],
         Node (Some ''parameters'') ''parameter_list'' 30 32 0 0
          [Node None ''('' 30 31 0 0 [], Node None '')'' 31 32 0 0 []]],
       Node (Some ''body'') ''compound_statement'' 33 35 0 0
        [Node None ''{'' 33 34 0 0 [], Node None ''}'' 34 35 0 0 []]]"

definition nested_tree_with :: "string \<Rightarrow> node" where
  "nested_tree_with name_type =
     Node None ''translation_unit'' 0 39 0 0
      [Node None ''namespace_definition'' 0 39 0 0
        [Node None ''namespace'' 0 9 0 0 [],
         Node (Some ''name'') ''namespace_identifier'' 10 11 0 0 [],
         Node (Some ''body'') ''declaration_list'' 12 39 0 0
          [Node None ''{'' 12 13 0 0 [],
           Node None ''class_specifier'' 14 37 0 0
            [Node None ''class'' 14 19 0 0 [],
             Node (Some ''name'') ''type_identifier'' 20 21 0 0 [],
             Node (Some ''body'') ''field_declaration_list'' 22 37 0 0
              [Node None ''{'' 22 23 0 0 [],
               method_node name_type,
               Node None ''}'' 36 37 0 0 []]],
           Node None '';'' 37 37 0 0 [],
           Node None ''}'' 38 39 0 0 []]]]"

definition nested_tree :: node where
  "nested_tree = nested_tree_with ''field_identifier''"

text \<open>
  A struct and a function with an \<open>if\<close> and a \<open>while\<close>:
  \<^verbatim>\<open>
  struct S {};
  int f(int x) {
    if (x) { while (x) { x--; } }
    return x;
  }
  \<close>
\<close>

definition branchy_source :: string where
  "branchy_source =
     ''struct S {};'' @ [CHR 0x0A] @ ''int f(int x) {'' @ [CHR 0x0A]
     @ ''  if (x) { while (x) { x--; } }'' @ [CHR 0x0A]
     @ ''  return x;'' @ [CHR 0x0A] @ ''}'' @ [CHR 0x0A]"

definition branchy_tree :: node where
  "branchy_tree =
     Node None ''translation_unit'' 0 74 0 5
      [Node None ''struct_specifier'' 0 11 0 0
       [Node None ''struct'' 0 6 0 0 [],
       Node (Some ''name'') ''type_identifier'' 7 8 0 0 [],
       Node (Some ''body'') ''field_declaration_list'' 9 11 0 0
        [Node None ''{'' 9 10 0 0 [],
        Node None ''}'' 10 11 0 0 []]],
      Node None '';'' 11 12 0 0 [],
      Node None ''function_definition'' 13 73 1 4
       [Node (Some ''type'') ''primitive_type'' 13 16 1 1 [],
       Node (Some ''declarator'') ''function_declarator'' 17 25 1 1
        [Node (Some ''declarator'') ''identifier'' 17 18 1 1 [],
        Node (Some ''parameters'') ''parameter_list'' 18 25 1 1
         [Node None ''('' 18 19 1 1 [],
         Node None ''parameter_declaration'' 19 24 1 1
          [Node (Some ''type'') ''primitive_type'' 19 22 1 1 [],
          Node (Some ''declarator'') ''identifier'' 23 24 1 1 []],
         Node None '')'' 24 25 1 1 []]],
       Node (Some ''body'') ''compound_statement'' 26 73 1 4
        [Node None ''{'' 26 27 1 1 [],
        Node None ''if_statement'' 30 59 2 2
         [Node None ''if'' 30 32 2 2 [],
         Node (Some ''condition'') ''condition_clause'' 33 36 2 2
          [Node None ''('' 33 34 2 2 [],
          Node (Some ''value'') ''identifier'' 34 35 2 2 [],
          Node None '')'' 35 36 2 2 []],
         Node (Some ''consequence'') ''compound_statement'' 37 59 2 2
          [Node None ''{'' 37 38 2 2 [],
          Node None ''while_statement'' 39 57 2 2
           [Node None ''while'' 39 44 2 2 [],
           Node (Some ''condition'') ''condition_clause'' 45 48 2 2
            [Node None ''('' 45 46 2 2 [],
            Node (Some ''value'') ''identifier'' 46 47 2 2 [],
            Node None '')'' 47 48 2 2 []],
           Node (Some ''body'') ''compound_statement'' 49 57 2 2
            [Node None ''{'' 49 50 2 2 [],
            Node None ''expression_statement'' 51 55 2 2
             [Node None ''update_expression'' 51 54 2 2
              [Node (Some ''argument'') ''identifier'' 51 52 2 2 [],
              Node (Some ''operator'') ''--'' 52 54 2 2 []],
             Node None '';'' 54 55 2 2 []],
            Node None ''}'' 56 57 2 2 []]],
          Node None ''}'' 58 59 2 2 []]],
        Node None ''return_statement'' 62 71 3 3
         [Node None ''return'' 62 68 3 3 [],
         Node None ''identifier'' 69 70 3 3 [],
         Node None '';'' 70 71 3 3 []],
        Node None ''}'' 72 73 4 4 []]]]"

text \<open>Three structs, each declared inside the one before: \<^verbatim>\<open>struct A { struct B { struct C {}; }; };\<close>\<close>

definition deep_source :: string where
  "deep_source = ''struct A { struct B { struct C {}; }; };''"

definition deep_tree :: node where
  "deep_tree =
     Node None ''translation_unit'' 0 40 0 0
      [Node None ''struct_specifier'' 0 39 0 0
       [Node None ''struct'' 0 6 0 0 [],
       Node (Some ''name'') ''type_identifier'' 7 8 0 0 [],
       Node (Some ''body'') ''field_declaration_list'' 9 39 0 0
        [Node None ''{'' 9 10 0 0 [],
        Node None ''field_declaration'' 11 37 0 0
         [Node (Some ''type'') ''struct_specifier'' 11 36 0 0
          [Node None ''struct'' 11 17 0 0 [],
          Node (Some ''name'') ''type_identifier'' 18 19 0 0 [],
          Node (Some ''body'') ''field_declaration_list'' 20 36 0 0
           [Node None ''{'' 20 21 0 0 [],
           Node None ''field_declaration'' 22 34 0 0
            [Node (Some ''type'') ''struct_specifier'' 22 33 0 0
             [Node None ''struct'' 22 28 0 0 [],
             Node (Some ''name'') ''type_identifier'' 29 30 0 0 [],
             Node (Some ''body'') ''field_declaration_list'' 31 33 0 0
              [Node None ''{'' 31 32 0 0 [],
              Node None ''}'' 32 33 0 0 []]],
            Node None '';'' 33 34 0 0 []],
           Node None ''}'' 35 36 0 0 []]],
         Node None '';'' 36 37 0 0 []],
        Node None ''}'' 38 39 0 0 []]],
      Node None '';'' 39 40 0 0 []]"







section \<open>Verified properties\<close>

subsection \<open>Traversal invariants\<close>

lemma field_child_member:
  "child_by_field_name n f = Some b \<Longrightarrow> b \<in> set (n_children n)"
  by (auto simp: child_by_field_name_def find_Some_iff)

text \<open>
  Every entity the traversal appends is built by one of the three constructors from a
  node it visits; \<open>V\<close> is any property of nodes that children inherit.
\<close>

lemma extract_entities_invariant:
  assumes cls: "\<And>n s q. V n \<Longrightarrow> P (class_entity n s q)"
    and fn: "\<And>n pt c s q. V n \<Longrightarrow> P (function_entity n pt c s q)"
    and en: "\<And>n s q. V n \<Longrightarrow> P (enum_entity n s q)"
    and step: "\<And>n c. V n \<Longrightarrow> c \<in> set (n_children n) \<Longrightarrow> V c"
  shows "V n \<Longrightarrow> list_all P (entities st)
           \<Longrightarrow> list_all P (entities (extract_entities content ptype n st))"
    and "(\<forall>c \<in> set ns. V c) \<Longrightarrow> list_all P (entities st)
           \<Longrightarrow> list_all P (entities (extract_entities_list content ptype ns st))"
proof (induction content ptype n st and content ptype ns st
       rule: extract_entities_extract_entities_list.induct)
  case (1 content ptype n st)
  have kids: "\<And>b f. child_by_field_name n f = Some b \<Longrightarrow> \<forall>c \<in> set (n_children b). V c"
    using "1.prems"(1) step field_child_member by blast
  have own: "\<forall>c \<in> set (n_children n). V c"
    using "1.prems"(1) step by blast
  show ?case
    using "1.IH" "1.prems" kids own cls fn en
    by (subst extract_entities.simps)
       (auto simp: Let_def split: option.splits)
next
  case (2 content ptype st)
  then show ?case by simp
next
  case (3 content ptype c cs st)
  then show ?case by simp
qed

lemma nested_tree_parse:
  "parse_cpp_file (parse_as nested_tree) nested_source =
     Inr ([\<lparr>entity_type = ''class'', simple_name = ''B'',
             qualified_name = ''A::B'', signature = Some ''class B'',
             start_line = 1, end_line = 1, start_byte = 14, end_byte = 37,
             is_public = True, parent_id = None, complexity_score = 0,
             metadata = [(''has_templates'', MBool False)]\<rparr>],
          [],
          [\<lparr>entity_name = Some ''A::B'', chunk_type = ''declaration'',
             chunk_content = ''namespace A { class B { void c() {} } }'',
             chunk_start_line = 1, chunk_end_line = 1, chunk_metadata = []\<rparr>])"
  by code_simp

subsection \<open>Visibility\<close>

text \<open>
  Claim C10.  Every entity the parser returns has \<open>is_public = True\<close>: the class,
  struct and enum branches set the field to \<open>True\<close>, and \<open>_is_public\<close> returns \<open>True\<close>
  for every function node, whatever access specifiers the source has.
\<close>

theorem parsed_entities_are_public:
  assumes "parse_cpp_file ts_parse content = Inr (ents, rels, chunks)"
  shows "\<forall>e \<in> set ents. is_public e"
proof -
  from assms obtain root where
    ents: "ents = entities (extract_entities content None root initial_state)"
    by (auto simp: parse_cpp_file_def parse_file_def Let_def split: sum.splits)
  have "list_all is_public (entities initial_state)"
    by (simp add: initial_state_def)
  then have "list_all is_public (entities (extract_entities content None root initial_state))"
    by (rule extract_entities_invariant(1) [where V = "\<lambda>_. True", rotated -1])
       (simp_all add: class_entity_def function_entity_def enum_entity_def
          is_public_node_def Let_def)
  with ents show ?thesis
    by (simp add: list_all_iff)
qed

theorem parsed_entities_are_public_witness:
  "\<exists>ents rels chunks.
     parse_cpp_file (parse_as nested_tree) nested_source = Inr (ents, rels, chunks)
     \<and> ents \<noteq> [] \<and> list_all is_public ents"
proof -
  obtain ents rels chunks where
    p: "parse_cpp_file (parse_as nested_tree) nested_source = Inr (ents, rels, chunks)"
    and ne: "ents \<noteq> []"
    using nested_tree_parse by simp
  from parsed_entities_are_public [OF p] have "list_all is_public ents"
    by (simp add: list_all_iff)
  with p ne show ?thesis by blast
qed

subsection \<open>Complexity scores\<close>

lemma count_control_flow_eq:
  "count_control_flow n k = k + length (filter is_control_flow (subnodes n))"
  "count_control_flow_list ns k = k + length (filter is_control_flow (subnodes_list ns))"
  by (induction n k and ns k rule: count_control_flow_count_control_flow_list.induct) simp_all

lemma calculate_complexity_eq: "calculate_complexity n = 1 + control_flow_nodes n"
  by (simp add: calculate_complexity_def control_flow_nodes_def count_control_flow_eq)

lemma subnodes_self: "n \<in> set (subnodes n)"
  by (cases n) simp

lemma subnodes_trans:
  "m \<in> set (subnodes n) \<Longrightarrow> c \<in> set (n_children m) \<Longrightarrow> c \<in> set (subnodes n)"
  "m \<in> set (subnodes_list ns) \<Longrightarrow> c \<in> set (n_children m) \<Longrightarrow> c \<in> set (subnodes_list ns)"
proof (induction n and ns rule: subnodes_subnodes_list.induct)
  case (1 f t sb eb sr er cs)
  have "\<And>x. x \<in> set cs \<Longrightarrow> x \<in> set (subnodes_list cs)"
  proof -
    fix x show "x \<in> set cs \<Longrightarrow> x \<in> set (subnodes_list cs)"
      by (induction cs) (auto simp: subnodes_self)
  qed
  with 1 show ?case by auto
next
  case 2
  then show ?case by simp
next
  case (3 c cs)
  then show ?case by auto
qed

lemma branchy_eval:
  "map entity_type (parsed_entities (parse_as branchy_tree) branchy_source) = [''struct'', ''function'']"
  "map complexity_score (parsed_entities (parse_as branchy_tree) branchy_source) = [0, 3]"
  by code_simp+


text \<open>
  Claim C8, as amended.  For every function entity, \<open>complexity_score\<close> is 1 plus the
  number of control-flow nodes (if, while, for, switch, case, catch) anywhere in the
  subtree of its node, hence at least 1; every class, struct and enum entity has
  \<open>complexity_score = 0\<close>, the constant its branch of \<open>_extract_entities\<close> writes.
\<close>

theorem complexity_by_kind:
  assumes "ts_parse content = Inr root"
  shows "\<forall>e \<in> set (parsed_entities ts_parse content). complexity_as_built root e"
proof -
  let ?P = "complexity_as_built root"
  have "list_all ?P (entities initial_state)"
    by (simp add: initial_state_def)
  then have "list_all ?P (entities (extract_entities content None root initial_state))"
  proof (rule extract_entities_invariant(1) [where V = "\<lambda>n. n \<in> set (subnodes root)", rotated -1])
    fix n s q assume "n \<in> set (subnodes root)"
    show "?P (class_entity n s q)"
      by (simp add: complexity_as_built_def class_entity_def Let_def)
  next
    fix n pt c s q assume n: "n \<in> set (subnodes root)"
    have "entity_type (function_entity n pt c s q) = ''function''"
      and cs: "complexity_score (function_entity n pt c s q) = 1 + control_flow_nodes n"
      by (simp_all add: function_entity_def calculate_complexity_eq)
    moreover from n cs have "\<exists>m \<in> set (subnodes root). \<exists>pt' c' s' q'.
        function_entity n pt c s q = function_entity m pt' c' s' q'
        \<and> complexity_score (function_entity n pt c s q) = 1 + control_flow_nodes m"
      by blast
    ultimately show "?P (function_entity n pt c s q)"
      unfolding complexity_as_built_def by simp
  next
    fix n s q assume "n \<in> set (subnodes root)"
    show "?P (enum_entity n s q)"
      by (simp add: complexity_as_built_def enum_entity_def)
  next
    fix n c assume "n \<in> set (subnodes root)" "c \<in> set (n_children n)"
    then show "c \<in> set (subnodes root)" by (rule subnodes_trans(1))
  next
    show "root \<in> set (subnodes root)" by (rule subnodes_self)
  qed
  with assms show ?thesis
    by (auto simp: parsed_entities_def parse_cpp_file_def parse_file_def Let_def list_all_iff
             split: sum.splits)
qed

theorem complexity_by_kind_witness:
  "parse_as branchy_tree branchy_source = Inr branchy_tree
   \<and> map entity_type (parsed_entities (parse_as branchy_tree) branchy_source) = [''struct'', ''function'']
   \<and> map complexity_score (parsed_entities (parse_as branchy_tree) branchy_source) = [0, 3]
   \<and> list_all (complexity_as_built branchy_tree) (parsed_entities (parse_as branchy_tree) branchy_source)"
proof -
  have p: "parse_as branchy_tree branchy_source = Inr branchy_tree"
    by (simp add: parse_as_def)
  from complexity_by_kind [of "parse_as branchy_tree" branchy_source branchy_tree] branchy_eval p show ?thesis
    by (simp add: list_all_iff)
qed


text \<open>
  The claim as stated asks for a score of at least 1 for every entity kind: the struct
  \<open>S\<close> of the example has score 0.
\<close>

theorem class_complexity_counterexample:
  "entity_type (hd (parsed_entities (parse_as branchy_tree) branchy_source)) = ''struct''
   \<and> complexity_score (hd (parsed_entities (parse_as branchy_tree) branchy_source)) = 0
   \<and> \<not> 1 \<le> complexity_score (hd (parsed_entities (parse_as branchy_tree) branchy_source))"
  by code_simp

subsection \<open>Qualified names and parents\<close>



text \<open>
  Claim C2 at \<open>struct A { struct B { struct C {}; }; };\<close>.  The lexical nesting path of
  the innermost struct is \<open>A::B::C\<close>; \<open>_build_qualified_name\<close> keeps only the last segment
  of the enclosing class and names it \<open>B::C\<close>.
\<close>

theorem nested_struct_names:
  "lexical_names deep_source [] deep_tree = [''A'', ''A::B'', ''A::B::C'']
   \<and> map qualified_name (parsed_entities (parse_as deep_tree) deep_source)
     = [''A'', ''A::B'', ''B::C'']"
  by code_simp

subsection \<open>The fallback path\<close>













end
